theory Spec2Isabelle
  imports Main
begin

section \<open>JavaScript values, thrown errors and settled promises\<close>

text \<open>
  A value of TypeScript type \<open>unknown\<close>: what a \<open>catch\<close> clause binds and what
  \<open>JSON.parse\<close> returns. Numbers are kept as integers (HTTP status codes are); an
  object is its list of own properties.
\<close>

datatype jsval =
    JUndefined
  | JNull
  | JBool bool
  | JNum int
  | JStr string
  | JArr "jsval list"
  | JObj "(string \<times> jsval) list"

text \<open>
  An awaited promise either yields its value (\<open>Inr\<close>) or throws what it was rejected
  with (\<open>Inl\<close>).
\<close>

type_synonym 'a outcome = "jsval + 'a"

text \<open>
  An async operation \<open>() => Promise<T>\<close> acts on the outside world: every invocation
  takes the world as it is and leaves it changed, together with its outcome.
\<close>

type_synonym ('a, 's) async_op = "'s \<Rightarrow> 'a outcome \<times> 's"

section \<open>The retry wrapper\<close>

definition MAX_RETRIES :: nat where
  "MAX_RETRIES = 5"

definition INITIAL_DELAY_MS :: nat where
  "INITIAL_DELAY_MS = 1000"

text \<open>
  \<open>isRateLimitError\<close>: \<open>error && typeof error === "object"\<close> holds of objects
  and arrays (\<open>null\<close> is falsy); then \<open>err.status === 429 || err.code === 429\<close>, where a missing
  property reads as \<open>undefined\<close>.
\<close>

fun isRateLimitError :: "jsval \<Rightarrow> bool" where
  "isRateLimitError (JObj props) =
     (map_of props ''status'' = Some (JNum 429) \<or> map_of props ''code'' = Some (JNum 429))"
| "isRateLimitError _ = False"

text \<open>
  What one run of \<open>withRetry\<close> did: how the returned promise settled, how often \<open>fn\<close>
  was invoked, the arguments of the \<open>sleep\<close> calls in order (milliseconds), and the
  world afterwards.
\<close>

record ('a, 's) retry_run =
  settled :: "'a outcome"
  calls :: nat
  waits :: "nat list"
  after :: 's

text \<open>
  The \<open>for\<close> loop of \<open>withRetry\<close>, entered with the loop variable \<open>attempt\<close> and the
  variable \<open>lastError\<close>; \<open>n\<close> and \<open>ws\<close> count the invocations and collect the sleeps
  made so far. The label \<open>context\<close> is used in the log line only, which is left out.
\<close>

function withRetry_loop ::
  "('a, 's) async_op \<Rightarrow> nat \<Rightarrow> jsval \<Rightarrow> nat \<Rightarrow> nat list \<Rightarrow> 's \<Rightarrow> ('a, 's) retry_run"
where
  "withRetry_loop fn attempt lastError n ws s =
     (if attempt < MAX_RETRIES then
        (case fn s of
           (Inr v, s') \<Rightarrow> \<lparr>settled = Inr v, calls = n + 1, waits = ws, after = s'\<rparr>
         | (Inl error, s') \<Rightarrow>
             if \<not> isRateLimitError error then
               \<lparr>settled = Inl error, calls = n + 1, waits = ws, after = s'\<rparr>
             else if attempt < MAX_RETRIES - 1 then
               withRetry_loop fn (attempt + 1) error (n + 1)
                 (ws @ [INITIAL_DELAY_MS * 2 ^ attempt]) s'
             else
               withRetry_loop fn (attempt + 1) error (n + 1) ws s')
      else \<lparr>settled = Inl lastError, calls = n, waits = ws, after = s\<rparr>)"
  by pat_completeness auto
termination
  by (relation "measure (\<lambda>(fn, attempt, lastError, n, ws, s). MAX_RETRIES - attempt)") auto

declare withRetry_loop.simps [simp del]

definition withRetry :: "('a, 's) async_op \<Rightarrow> 's \<Rightarrow> ('a, 's) retry_run" where
  "withRetry fn s = withRetry_loop fn 0 JUndefined 0 [] s"

text \<open>
  The outcome and the world after the \<open>k\<close>-th successive invocation (counted from 0) of
  an operation started in world \<open>s\<close>.
\<close>

fun invocation :: "('a, 's) async_op \<Rightarrow> 's \<Rightarrow> nat \<Rightarrow> 'a outcome \<times> 's" where
  "invocation fn s 0 = fn s"
| "invocation fn s (Suc k) = invocation fn (snd (fn s)) k"

definition rate_limited :: "'a outcome \<Rightarrow> bool" where
  "rate_limited r = (case r of Inl e \<Rightarrow> isRateLimitError e | Inr _ \<Rightarrow> False)"

definition backoff :: "nat \<Rightarrow> nat" where
  "backoff attempt = INITIAL_DELAY_MS * 2 ^ attempt"

section \<open>The client initializer\<close>

text \<open>
  The two handles of \<open>@google/gemini-cli-core\<close> are opaque objects; a handle is known
  by its identity.
\<close>

datatype ContentGenerator = ContentGenerator nat

datatype ContentGeneratorConfig = ContentGeneratorConfig nat

record handle =
  client :: ContentGenerator
  config :: ContentGeneratorConfig

text \<open>What goes over the network, in the order it happens.\<close>

datatype net_event =
    CreateConfig
  | CreateClient
  | GenerateContentCall
  | GenerateContentStreamCall

text \<open>
  The state of the process: the module-level variables \<open>contentGenerator\<close> and
  \<open>generatorConfig\<close> (\<open>null\<close> is \<open>None\<close>), everything outside the process (the model
  service, the credential store, the file system), the network calls made, the sleeps
  taken and what the writer's \<open>onText\<close> callback wrote to standard output.
\<close>

record 'x world =
  contentGenerator :: "ContentGenerator option"
  generatorConfig :: "ContentGeneratorConfig option"
  outside :: 'x
  network :: "net_event list"
  slept :: "nat list"
  stdout :: "string list"

definition fresh :: "'x \<Rightarrow> 'x world" where
  "fresh x = \<lparr>contentGenerator = None, generatorConfig = None, outside = x,
              network = [], slept = [], stdout = []\<rparr>"

text \<open>
  A call of an imported operation acts on the outside and is a network call.
\<close>

definition remote :: "net_event \<Rightarrow> ('a, 'x) async_op \<Rightarrow> ('a, 'x world) async_op" where
  "remote ev op w =
     (case op (outside w) of
        (r, x') \<Rightarrow> (r, w\<lparr>outside := x', network := network w @ [ev]\<rparr>))"

text \<open>
  The request the two content calls build. A zod schema stands in a request for the JSON
  schema \<open>z.toJSONSchema\<close> derives from it.
\<close>

datatype zod_schema = ResearchPlanSchema

record GenerateContentParameters =
  model :: string
  contents :: string
  config_systemInstruction :: string
  config_maxOutputTokens :: nat
  config_googleSearch :: bool
  config_responseJsonSchema :: "zod_schema option"

text \<open>The response types of \<open>@google/genai\<close>, with the fields the code reads.\<close>

record GroundingChunkWeb =
  web_uri :: "string option"
  web_title :: "string option"

record GroundingChunk =
  web :: "GroundingChunkWeb option"

record GroundingMetadata =
  groundingChunks :: "GroundingChunk list option"

record Part =
  part_text :: "string option"

record Content =
  parts :: "Part list option"

record Candidate =
  content :: "Content option"
  groundingMetadata :: "GroundingMetadata option"

record GenerateContentResponse =
  candidates :: "Candidate list option"

text \<open>
  A response stream: the chunks it yields, then either its end or the error its
  iterator throws.
\<close>

type_synonym response_stream = "GenerateContentResponse list \<times> jsval option"

text \<open>
  What the program imports: the two factories and the two content calls of the client
  library, \<open>JSON.parse\<close> (\<open>None\<close> where it throws a \<open>SyntaxError\<close>), and \<open>mkdir\<close>
  followed by \<open>writeFile\<close>.
\<close>

record 'x platform =
  createContentGeneratorConfig :: "(ContentGeneratorConfig, 'x) async_op"
  createContentGenerator :: "ContentGeneratorConfig \<Rightarrow> (ContentGenerator, 'x) async_op"
  client_generateContent ::
    "ContentGenerator \<Rightarrow> GenerateContentParameters \<Rightarrow> (GenerateContentResponse, 'x) async_op"
  client_generateContentStream ::
    "ContentGenerator \<Rightarrow> GenerateContentParameters \<Rightarrow> (response_stream, 'x) async_op"
  JSON_parse :: "string \<Rightarrow> jsval option"
  saveFile :: "string \<Rightarrow> string \<Rightarrow> (unit, 'x) async_op"

definition DEFAULT_MODEL :: string where
  "DEFAULT_MODEL = ''gemini-3-flash-preview''"

text \<open>
  \<open>initializeClient\<close>: the cached pair when both variables are set; otherwise the
  configuration is created and stored, then the generator is created and stored. An
  error of either factory is thrown where it happens, after the assignments made so far.
\<close>

definition initializeClient :: "'x platform \<Rightarrow> (handle, 'x world) async_op" where
  "initializeClient lib w =
     (case (contentGenerator w, generatorConfig w) of
        (Some c, Some g) \<Rightarrow> (Inr \<lparr>client = c, config = g\<rparr>, w)
      | _ \<Rightarrow>
        (case remote CreateConfig (createContentGeneratorConfig lib) w of
           (Inl e, w1) \<Rightarrow> (Inl e, w1)
         | (Inr g, w1) \<Rightarrow>
             let w2 = w1\<lparr>generatorConfig := Some g\<rparr> in
             (case remote CreateClient (createContentGenerator lib g) w2 of
                (Inl e, w3) \<Rightarrow> (Inl e, w3)
              | (Inr c, w3) \<Rightarrow>
                  (Inr \<lparr>client = c, config = g\<rparr>, w3\<lparr>contentGenerator := Some c\<rparr>))))"

section \<open>Content generation and streaming\<close>

record options =
  useGoogleSearch :: bool
  jsonSchema :: "zod_schema option"

record generated =
  result_text :: string
  result_groundingMetadata :: "GroundingMetadata option"

text \<open>\<open>response.candidates?.[0]\<close> and \<open>candidate?.content?.parts\<close>.\<close>

definition first_candidate :: "GenerateContentResponse \<Rightarrow> Candidate option" where
  "first_candidate response =
     (case candidates response of None \<Rightarrow> None | Some [] \<Rightarrow> None | Some (c # _) \<Rightarrow> Some c)"

definition candidate_parts :: "Candidate option \<Rightarrow> Part list option" where
  "candidate_parts candidate =
     (case candidate of
        None \<Rightarrow> None
      | Some c \<Rightarrow> (case content c of None \<Rightarrow> None | Some ct \<Rightarrow> parts ct))"

definition build_request :: "string \<Rightarrow> string \<Rightarrow> options \<Rightarrow> GenerateContentParameters" where
  "build_request systemInstruction userPrompt opts =
     \<lparr>model = DEFAULT_MODEL, contents = userPrompt,
      config_systemInstruction = systemInstruction, config_maxOutputTokens = 8192,
      config_googleSearch = useGoogleSearch opts,
      config_responseJsonSchema = jsonSchema opts\<rparr>"

text \<open>
  What \<open>generateContent\<close> returns for a response:
  \<open>parts?.map(p => p.text || "").join("") || ""\<close> and the first candidate's grounding
  metadata.
\<close>

definition read_response :: "GenerateContentResponse \<Rightarrow> generated" where
  "read_response response =
     (let candidate = first_candidate response in
      \<lparr>result_text =
         (case candidate_parts candidate of
            None \<Rightarrow> []
          | Some ps \<Rightarrow> concat (map (\<lambda>p. case part_text p of None \<Rightarrow> [] | Some t \<Rightarrow> t) ps)),
       result_groundingMetadata =
         (case candidate of None \<Rightarrow> None | Some c \<Rightarrow> groundingMetadata c)\<rparr>)"

definition generateContent ::
  "'x platform \<Rightarrow> string \<Rightarrow> string \<Rightarrow> options \<Rightarrow> (generated, 'x world) async_op"
where
  "generateContent lib systemInstruction userPrompt opts w =
     (case initializeClient lib w of
        (Inl e, w1) \<Rightarrow> (Inl e, w1)
      | (Inr h, w1) \<Rightarrow>
          let request = build_request systemInstruction userPrompt opts;
              run = withRetry
                      (remote GenerateContentCall (client_generateContent lib (client h) request))
                      w1;
              w2 = (after run)\<lparr>slept := slept (after run) @ waits run\<rparr>
          in (case settled run of
                Inl e \<Rightarrow> (Inl e, w2)
              | Inr response \<Rightarrow> (Inr (read_response response), w2)))"

text \<open>
  The two loops of \<open>streamContent\<close>. The state is \<open>fullText\<close> and the arguments of the
  \<open>onText\<close> calls made so far. A part whose \<open>text\<close> is missing or empty is falsy and
  skipped.
\<close>

fun each_part :: "Part list \<Rightarrow> string \<times> string list \<Rightarrow> string \<times> string list" where
  "each_part [] acc = acc"
| "each_part (p # ps) (fullText, emitted) =
     (case part_text p of
        None \<Rightarrow> each_part ps (fullText, emitted)
      | Some t \<Rightarrow>
          if t = [] then each_part ps (fullText, emitted)
          else each_part ps (fullText @ t, emitted @ [t]))"

fun each_chunk ::
  "GenerateContentResponse list \<Rightarrow> string \<times> string list \<Rightarrow> string \<times> string list"
where
  "each_chunk [] acc = acc"
| "each_chunk (chunk # chunks) acc =
     (case candidate_parts (first_candidate chunk) of
        None \<Rightarrow> each_chunk chunks acc
      | Some ps \<Rightarrow> each_chunk chunks (each_part ps acc))"

text \<open>
  \<open>streamContent\<close> with an \<open>onText\<close> callback that writes to standard output and no
  \<open>onGrounding\<close> callback, as the writer calls it. When the stream throws, what was
  written before stays written.
\<close>

definition streamContent ::
  "'x platform \<Rightarrow> string \<Rightarrow> string \<Rightarrow> bool \<Rightarrow> (string, 'x world) async_op"
where
  "streamContent lib systemInstruction userPrompt search w =
     (case initializeClient lib w of
        (Inl e, w1) \<Rightarrow> (Inl e, w1)
      | (Inr h, w1) \<Rightarrow>
          let request = build_request systemInstruction userPrompt
                          \<lparr>useGoogleSearch = search, jsonSchema = None\<rparr>;
              run = withRetry
                      (remote GenerateContentStreamCall
                         (client_generateContentStream lib (client h) request))
                      w1;
              w2 = (after run)\<lparr>slept := slept (after run) @ waits run\<rparr>
          in (case settled run of
                Inl e \<Rightarrow> (Inl e, w2)
              | Inr (chunks, thrown) \<Rightarrow>
                  (case each_chunk chunks ([], []) of
                     (fullText, emitted) \<Rightarrow>
                       (case thrown of None \<Rightarrow> Inr fullText | Some e \<Rightarrow> Inl e,
                        w2\<lparr>stdout := stdout w2 @ emitted\<rparr>))))"

section \<open>The three stages\<close>

definition newline :: string where
  "newline = [CHR 0x0A]"

text \<open>\<open>Array.prototype.join\<close> on strings.\<close>

fun join :: "string \<Rightarrow> string list \<Rightarrow> string" where
  "join sep [] = []"
| "join sep [x] = x"
| "join sep (x # y # ys) = x @ sep @ join sep (y # ys)"

subsection \<open>Coordinator\<close>

record ResearchPlan =
  questions :: "string list"
  rationale :: string

definition SyntaxError :: jsval where
  "SyntaxError = JObj [(''name'', JStr ''SyntaxError'')]"

definition ZodError :: jsval where
  "ZodError = JObj [(''name'', JStr ''ZodError'')]"

text \<open>\<open>z.array(z.string())\<close> on the elements of an array: every element must be a string.\<close>

fun all_strings :: "jsval list \<Rightarrow> string list option" where
  "all_strings [] = Some []"
| "all_strings (JStr s # xs) = map_option ((#) s) (all_strings xs)"
| "all_strings (_ # xs) = None"

text \<open>
  \<open>researchPlanSchema.parse\<close>: the input must be an object whose \<open>questions\<close> is an array
  of strings and whose \<open>rationale\<close> is a string; other properties are dropped. The schema
  puts no bound on the length of the array.
\<close>

fun researchPlanSchema_parse :: "jsval \<Rightarrow> ResearchPlan outcome" where
  "researchPlanSchema_parse (JObj props) =
     (case map_of props ''questions'' of
        Some (JArr items) \<Rightarrow>
          (case all_strings items of
             None \<Rightarrow> Inl ZodError
           | Some qs \<Rightarrow>
               (case map_of props ''rationale'' of
                  Some (JStr r) \<Rightarrow> Inr \<lparr>questions = qs, rationale = r\<rparr>
                | _ \<Rightarrow> Inl ZodError))
      | _ \<Rightarrow> Inl ZodError)"
| "researchPlanSchema_parse _ = Inl ZodError"

definition coordinator_instruction :: string where
  "coordinator_instruction =
     ''You are a Research Coordinator.'' @ newline @
     ''Plan research with 5 focused, searchable questions.'' @ newline @
     ''Return your response as JSON matching the schema provided.''"

definition coordinator_prompt :: "string \<Rightarrow> string" where
  "coordinator_prompt topic = ''Topic: '' @ topic"

definition runCoordinator :: "'x platform \<Rightarrow> string \<Rightarrow> (ResearchPlan, 'x world) async_op" where
  "runCoordinator lib topic w =
     (case generateContent lib coordinator_instruction (coordinator_prompt topic)
             \<lparr>useGoogleSearch = False, jsonSchema = Some ResearchPlanSchema\<rparr> w of
        (Inl e, w1) \<Rightarrow> (Inl e, w1)
      | (Inr g, w1) \<Rightarrow>
          (case JSON_parse lib (result_text g) of
             None \<Rightarrow> (Inl SyntaxError, w1)
           | Some parsed \<Rightarrow> (researchPlanSchema_parse parsed, w1)))"

subsection \<open>Researcher\<close>

record Source =
  title :: "string option"
  uri :: "string option"

record Finding =
  question :: string
  findings :: string

record ResearchResult = Finding +
  sources :: "Source list"

text \<open>The \<open>for\<close> loop over the grounding chunks, pushing onto \<open>sources\<close> (here \<open>pushed\<close>).\<close>

fun push_sources :: "GroundingChunk list \<Rightarrow> Source list \<Rightarrow> Source list" where
  "push_sources [] pushed = pushed"
| "push_sources (chunk # chunks) pushed =
     (case web chunk of
        None \<Rightarrow> push_sources chunks pushed
      | Some w \<Rightarrow> push_sources chunks (pushed @ [\<lparr>title = web_title w, uri = web_uri w\<rparr>]))"

definition extract_sources :: "GroundingMetadata option \<Rightarrow> Source list" where
  "extract_sources metadata =
     (case metadata of
        None \<Rightarrow> []
      | Some meta \<Rightarrow>
          (case groundingChunks meta of
             None \<Rightarrow> []
           | Some chunks \<Rightarrow> if length chunks \<noteq> 0 then push_sources chunks [] else []))"

definition researcher_instruction :: string where
  "researcher_instruction =
     ''You are an expert Research Agent.'' @ newline @
     ''Use the Google Search tool to find current, accurate information.'' @ newline @
     ''Summarize your findings with citations from the search results.'' @ newline @
     ''Be thorough but concise.''"

definition researcher_prompt :: "string \<Rightarrow> string" where
  "researcher_prompt q = ''Research this question: '' @ q"

definition runResearcher :: "'x platform \<Rightarrow> string \<Rightarrow> (ResearchResult, 'x world) async_op" where
  "runResearcher lib q w =
     (case generateContent lib researcher_instruction (researcher_prompt q)
             \<lparr>useGoogleSearch = True, jsonSchema = None\<rparr> w of
        (Inl e, w1) \<Rightarrow> (Inl e, w1)
      | (Inr g, w1) \<Rightarrow>
          (Inr \<lparr>question = q, findings = result_text g,
                sources = extract_sources (result_groundingMetadata g)\<rparr>, w1))"

subsection \<open>Writer\<close>

definition writer_instruction :: string where
  "writer_instruction =
     ''You are a Senior Technical Writer.'' @ newline @
     ''Write a well-structured Markdown report based on the research findings provided.''
       @ newline @
     ''Include an executive summary, main sections for each finding, and a conclusion.''
       @ newline @
     ''Use proper markdown formatting with headers, lists, and emphasis where appropriate.''"

definition writer_context :: "Finding list \<Rightarrow> string" where
  "writer_context fs =
     join (newline @ newline @ ''---'' @ newline @ newline)
       (map (\<lambda>d. ''### Question: '' @ question d @ newline @ newline
                  @ ''Findings:'' @ newline @ findings d) fs)"

definition writer_prompt :: "string \<Rightarrow> Finding list \<Rightarrow> string" where
  "writer_prompt topic fs =
     ''Topic: '' @ topic @ newline @ newline @ ''Research Findings:'' @ newline
       @ writer_context fs"

definition runWriter :: "'x platform \<Rightarrow> string \<Rightarrow> Finding list \<Rightarrow> (string, 'x world) async_op" where
  "runWriter lib topic fs w =
     streamContent lib writer_instruction (writer_prompt topic fs) False w"

section \<open>The command-line driver\<close>

subsection \<open>The parallel research phase\<close>

text \<open>
  \<open>plan.questions.map(async (question, index) => ...)\<close> starts one request per question
  and \<open>Promise.all\<close> awaits them. \<open>Promise.all\<close> keeps one slot per input promise:
  a promise that resolves fills the slot of its own index, the first promise that rejects
  rejects the whole, and the whole resolves with the slots once all are filled. The
  promises are taken in the order in which they complete, each request as one step on the
  world; \<open>None\<close> is a promise that stays pending.
\<close>

fun settle_all ::
  "('q \<Rightarrow> ('a, 's) async_op) \<Rightarrow> (nat \<times> 'q) list \<Rightarrow> 'a option list \<Rightarrow> 's
     \<Rightarrow> 'a list outcome option \<times> 's"
where
  "settle_all task [] slots s = (map_option Inr (those slots), s)"
| "settle_all task ((index, q) # rest) slots s =
     (case task q s of
        (Inl e, s') \<Rightarrow> (Some (Inl e), s')
      | (Inr v, s') \<Rightarrow> settle_all task rest (slots[index := Some v]) s')"

text \<open>
  The completion order of the requests: request \<open>index\<close> completes at time
  \<open>finish index\<close>, and requests completing at the same time complete in index order.
\<close>

definition completion_order :: "(nat \<Rightarrow> nat) \<Rightarrow> 'q list \<Rightarrow> (nat \<times> 'q) list" where
  "completion_order finish qs = sort_key (\<lambda>(index, q). finish index) (enumerate 0 qs)"

definition research_all ::
  "'x platform \<Rightarrow> (nat \<Rightarrow> nat) \<Rightarrow> string list \<Rightarrow> 'x world
     \<Rightarrow> ResearchResult list outcome option \<times> 'x world"
where
  "research_all lib finish qs w =
     settle_all (runResearcher lib) (completion_order finish qs) (replicate (length qs) None) w"

subsection \<open>The topic\<close>

text \<open>
  Characters are code units below 256; these are the ones \<open>String.prototype.trim\<close>
  strips (white space and line terminators).
\<close>

definition isWhiteSpace :: "char \<Rightarrow> bool" where
  "isWhiteSpace c =
     (c \<in> set [CHR 0x09, CHR 0x0A, CHR 0x0B, CHR 0x0C, CHR 0x0D, CHR 0x20, CHR 0xA0])"

definition trim :: "string \<Rightarrow> string" where
  "trim s = rev (dropWhile isWhiteSpace (rev (dropWhile isWhiteSpace s)))"

text \<open>
  \<open>let topic = values.topic; if (!topic) topic = await rl.question(...)\<close>: a flag that is
  absent or the empty string is falsy, and the answer typed at the prompt is taken.
\<close>

definition read_topic :: "string option \<Rightarrow> string \<Rightarrow> string" where
  "read_topic flag answer =
     (case flag of None \<Rightarrow> answer | Some t \<Rightarrow> if t = [] then answer else t)"

subsection \<open>The pipeline\<close>

text \<open>The body of the \<open>try\<close> block of \<open>main\<close>.\<close>

definition pipeline ::
  "'x platform \<Rightarrow> (nat \<Rightarrow> nat) \<Rightarrow> string \<Rightarrow> string \<Rightarrow> 'x world
     \<Rightarrow> unit outcome option \<times> 'x world"
where
  "pipeline lib finish outputFile topic w =
     (case runCoordinator lib topic w of
        (Inl e, w1) \<Rightarrow> (Some (Inl e), w1)
      | (Inr plan, w1) \<Rightarrow>
          (case research_all lib finish (questions plan) w1 of
             (None, w2) \<Rightarrow> (None, w2)
           | (Some (Inl e), w2) \<Rightarrow> (Some (Inl e), w2)
           | (Some (Inr results), w2) \<Rightarrow>
               (case runWriter lib topic
                       (map (\<lambda>r. \<lparr>question = question r, findings = findings r\<rparr>) results)
                       w2 of
                  (Inl e, w3) \<Rightarrow> (Some (Inl e), w3)
                | (Inr report, w3) \<Rightarrow>
                    (case saveFile lib outputFile report (outside w3) of
                       (r, x) \<Rightarrow> (Some r, w3\<lparr>outside := x\<rparr>)))))"

text \<open>
  How the process ends: its exit code (\<open>None\<close> when it never exits), the error the
  \<open>catch\<close> clause printed, and the world it leaves.
\<close>

record 'x ended =
  exit_code :: "nat option"
  caught :: "jsval option"
  final :: "'x world"

text \<open>
  \<open>main\<close>, given the value of the \<open>--topic\<close> flag and the line typed at the prompt when
  the prompt is shown. A blank topic ends the process at \<open>process.exit(1)\<close>; otherwise
  the \<open>finally\<close> clause ends it at \<open>process.exit(0)\<close>, whether the \<open>try\<close> block
  completed or the \<open>catch\<close> clause printed an error. The progress lines written with
  \<open>console.log\<close> are left out.
\<close>

definition main ::
  "'x platform \<Rightarrow> (nat \<Rightarrow> nat) \<Rightarrow> string \<Rightarrow> string option \<Rightarrow> string \<Rightarrow> 'x world \<Rightarrow> 'x ended"
where
  "main lib finish outputFile flag answer w =
     (let topic = read_topic flag answer in
      if trim topic = [] then \<lparr>exit_code = Some 1, caught = None, final = w\<rparr>
      else
        (case pipeline lib finish outputFile topic w of
           (None, w') \<Rightarrow> \<lparr>exit_code = None, caught = None, final = w'\<rparr>
         | (Some (Inl e), w') \<Rightarrow> \<lparr>exit_code = Some 0, caught = Some e, final = w'\<rparr>
         | (Some (Inr u), w') \<Rightarrow> \<lparr>exit_code = Some 0, caught = None, final = w'\<rparr>))"

section \<open>Example inputs\<close>

text \<open>An operation that replays a script of outcomes, one per invocation.\<close>

fun replay :: "('a, 'a outcome list) async_op" where
  "replay [] = (Inl (JStr ''script exhausted''), [])"
| "replay (r # rs) = (r, rs)"

definition tooManyRequests :: jsval where
  "tooManyRequests = JObj [(''message'', JStr ''quota exceeded''), (''status'', JNum 429)]"

definition serverError :: jsval where
  "serverError = JObj [(''status'', JNum 500)]"

text \<open>
  A model service that replays a script of replies and a file system that records what
  is saved.
\<close>

datatype reply =
    Answer GenerateContentResponse
  | Chunks "GenerateContentResponse list"
  | Failure jsval

record scripted =
  script :: "reply list"
  files :: "(string \<times> string) list"

definition say :: "string \<Rightarrow> GenerateContentResponse" where
  "say t = \<lparr>candidates = Some [\<lparr>content = Some \<lparr>parts = Some [\<lparr>part_text = Some t\<rparr>]\<rparr>,
                                  groundingMetadata = None\<rparr>]\<rparr>"

definition next_answer :: "(GenerateContentResponse, scripted) async_op" where
  "next_answer x =
     (case script x of
        Answer r # rest \<Rightarrow> (Inr r, x\<lparr>script := rest\<rparr>)
      | Failure e # rest \<Rightarrow> (Inl e, x\<lparr>script := rest\<rparr>)
      | _ \<Rightarrow> (Inl (JStr ''unexpected call''), x))"

definition next_stream :: "(response_stream, scripted) async_op" where
  "next_stream x =
     (case script x of
        Chunks cs # rest \<Rightarrow> (Inr (cs, None), x\<lparr>script := rest\<rparr>)
      | Failure e # rest \<Rightarrow> (Inl e, x\<lparr>script := rest\<rparr>)
      | _ \<Rightarrow> (Inl (JStr ''unexpected call''), x))"

text \<open>Two texts a model may return for a plan, and what \<open>JSON.parse\<close> makes of them.\<close>

definition two_question_plan :: string where
  "two_question_plan = ''{\"questions\":[\"who\",\"why\"],\"rationale\":\"ask\"}''"

definition no_question_plan :: string where
  "no_question_plan = ''{\"questions\":[],\"rationale\":\"nothing to ask\"}''"

definition parse_examples :: "string \<Rightarrow> jsval option" where
  "parse_examples =
     [two_question_plan \<mapsto>
        JObj [(''questions'', JArr [JStr ''who'', JStr ''why'']), (''rationale'', JStr ''ask'')],
      no_question_plan \<mapsto>
        JObj [(''questions'', JArr []), (''rationale'', JStr ''nothing to ask'')]]"

definition scripted_platform :: "scripted platform" where
  "scripted_platform =
     \<lparr>createContentGeneratorConfig = (\<lambda>x. (Inr (ContentGeneratorConfig 1), x)),
      createContentGenerator = (\<lambda>g x. (Inr (ContentGenerator 1), x)),
      client_generateContent = (\<lambda>c request. next_answer),
      client_generateContentStream = (\<lambda>c request. next_stream),
      JSON_parse = parse_examples,
      saveFile = (\<lambda>path data x. (Inr (), x\<lparr>files := (path, data) # files x\<rparr>))\<rparr>"

text \<open>A model service that answers every request with the prompt it was sent.\<close>

definition echo_platform :: "unit platform" where
  "echo_platform =
     \<lparr>createContentGeneratorConfig = (\<lambda>x. (Inr (ContentGeneratorConfig 1), x)),
      createContentGenerator = (\<lambda>g x. (Inr (ContentGenerator 1), x)),
      client_generateContent = (\<lambda>c request x. (Inr (say (contents request)), x)),
      client_generateContentStream = (\<lambda>c request x. (Inr ([say (contents request)], None), x)),
      JSON_parse = parse_examples,
      saveFile = (\<lambda>path data x. (Inr (), x))\<rparr>"

definition scripted_world :: "reply list \<Rightarrow> scripted world" where
  "scripted_world rs = fresh \<lparr>script = rs, files = []\<rparr>"

text \<open>A response grounded in two web pages and one chunk that is not a web page.\<close>

definition grounded :: GenerateContentResponse where
  "grounded =
     \<lparr>candidates = Some
        [\<lparr>content = Some \<lparr>parts = Some [\<lparr>part_text = Some ''tea is a drink''\<rparr>]\<rparr>,
          groundingMetadata = Some
            \<lparr>groundingChunks = Some
               [\<lparr>web = Some \<lparr>web_uri = Some ''https://a.example'', web_title = Some ''A''\<rparr>\<rparr>,
                \<lparr>web = None\<rparr>,
                \<lparr>web = Some \<lparr>web_uri = Some ''https://b.example'', web_title = None\<rparr>\<rparr>]\<rparr>\<rparr>]\<rparr>"

text \<open>Completion times: in index order, and in the reverse order.\<close>

definition in_turn :: "nat \<Rightarrow> nat" where
  "in_turn index = index"

definition last_first :: "nat \<Rightarrow> nat" where
  "last_first index = 100 - index"

section \<open>What a response carries, in the words of the specification\<close>

text \<open>
  The text fragments of a streamed chunk: every \<open>text\<close> a part of its first candidate
  carries, in order; and those of a stream, in arrival order. (The request asks for one
  candidate, and the code reads the first.)
\<close>

definition chunk_fragments :: "GenerateContentResponse \<Rightarrow> string list" where
  "chunk_fragments chunk =
     (case candidate_parts (first_candidate chunk) of
        None \<Rightarrow> []
      | Some ps \<Rightarrow> List.map_filter part_text ps)"

definition text_fragments :: "GenerateContentResponse list \<Rightarrow> string list" where
  "text_fragments chunks = concat (map chunk_fragments chunks)"

text \<open>
  The \<open>web\<close> fields of the grounding chunks of a response, in the order of the chunks;
  none when the response has no grounding metadata or no grounding chunks.
\<close>

definition cited :: "GenerateContentResponse \<Rightarrow> GroundingChunkWeb list" where
  "cited response =
     (case first_candidate response of
        None \<Rightarrow> []
      | Some c \<Rightarrow>
          (case groundingMetadata c of
             None \<Rightarrow> []
           | Some meta \<Rightarrow>
               (case groundingChunks meta of
                  None \<Rightarrow> []
                | Some chunks \<Rightarrow> List.map_filter web chunks)))"

section \<open>Properties of the retry wrapper\<close>

lemma withRetry_loop_trace:
  assumes "attempt < MAX_RETRIES"
  shows "\<exists>k. attempt + k < MAX_RETRIES
     \<and> withRetry_loop fn attempt lastError n ws s =
         \<lparr>settled = fst (invocation fn s k), calls = n + k + 1,
          waits = ws @ map backoff [attempt..<attempt + k],
          after = snd (invocation fn s k)\<rparr>
     \<and> (\<forall>j<k. rate_limited (fst (invocation fn s j)))
     \<and> (attempt + k < MAX_RETRIES - 1 \<longrightarrow> \<not> rate_limited (fst (invocation fn s k)))"
  using assms
proof (induction fn attempt lastError n ws s rule: withRetry_loop.induct)
  case (1 fn attempt lastError n ws s)
  obtain r s' where fs: "fn s = (r, s')" by (cases "fn s")
  show ?case
  proof (cases r)
    case (Inr v)
    with fs "1.prems" have
      "withRetry_loop fn attempt lastError n ws s =
         \<lparr>settled = fst (invocation fn s 0), calls = n + 0 + 1,
          waits = ws @ map backoff [attempt..<attempt + 0],
          after = snd (invocation fn s 0)\<rparr>"
      by (simp add: withRetry_loop.simps [of fn attempt])
    moreover have "\<not> rate_limited (fst (invocation fn s 0))"
      using fs Inr by (simp add: rate_limited_def)
    ultimately show ?thesis using "1.prems" by (intro exI [of _ 0]) simp
  next
    case (Inl e)
    show ?thesis
    proof (cases "isRateLimitError e")
      case False
      with fs Inl "1.prems" have
        "withRetry_loop fn attempt lastError n ws s =
           \<lparr>settled = fst (invocation fn s 0), calls = n + 0 + 1,
            waits = ws @ map backoff [attempt..<attempt + 0],
            after = snd (invocation fn s 0)\<rparr>"
        by (simp add: withRetry_loop.simps [of fn attempt])
      moreover have "\<not> rate_limited (fst (invocation fn s 0))"
        using fs Inl False by (simp add: rate_limited_def)
      ultimately show ?thesis using "1.prems" by (intro exI [of _ 0]) simp
    next
      case True
      have rl0: "rate_limited (fst (invocation fn s 0))"
        using fs Inl True by (simp add: rate_limited_def)
      show ?thesis
      proof (cases "attempt < MAX_RETRIES - 1")
        case last: False
        with "1.prems" have at: "attempt + 1 = MAX_RETRIES" by simp
        have "withRetry_loop fn attempt lastError n ws s =
                withRetry_loop fn (attempt + 1) e (n + 1) ws s'"
          using fs Inl True last "1.prems" by (simp add: withRetry_loop.simps [of fn attempt])
        also have "\<dots> = \<lparr>settled = Inl e, calls = n + 1, waits = ws, after = s'\<rparr>"
          by (subst withRetry_loop.simps) (use at in simp)
        finally have
          "withRetry_loop fn attempt lastError n ws s =
             \<lparr>settled = fst (invocation fn s 0), calls = n + 0 + 1,
              waits = ws @ map backoff [attempt..<attempt + 0],
              after = snd (invocation fn s 0)\<rparr>"
          using fs Inl by simp
        then show ?thesis using "1.prems" last by (intro exI [of _ 0]) simp
      next
        case more: True
        then have lt: "attempt + 1 < MAX_RETRIES" by simp
        have step: "withRetry_loop fn attempt lastError n ws s =
                withRetry_loop fn (attempt + 1) e (n + 1) (ws @ [backoff attempt]) s'"
          using fs Inl True more "1.prems"
          by (simp add: withRetry_loop.simps [of fn attempt] backoff_def)
        from "1.IH"(1) [OF "1.prems" fs [symmetric] Inl _ more lt] True
        obtain k where k: "attempt + 1 + k < MAX_RETRIES"
          and run: "withRetry_loop fn (attempt + 1) e (n + 1)
                      (ws @ [INITIAL_DELAY_MS * 2 ^ attempt]) s' =
             \<lparr>settled = fst (invocation fn s' k), calls = n + 1 + k + 1,
              waits = (ws @ [INITIAL_DELAY_MS * 2 ^ attempt])
                        @ map backoff [attempt + 1..<attempt + 1 + k],
              after = snd (invocation fn s' k)\<rparr>"
          and before: "\<forall>j<k. rate_limited (fst (invocation fn s' j))"
          and stop: "attempt + 1 + k < MAX_RETRIES - 1
                       \<longrightarrow> \<not> rate_limited (fst (invocation fn s' k))"
          by auto
        have ws: "(ws @ [INITIAL_DELAY_MS * 2 ^ attempt])
                    @ map backoff [attempt + 1..<attempt + 1 + k]
                  = ws @ map backoff [attempt..<attempt + Suc k]"
          by (simp add: upt_conv_Cons backoff_def)
        have "withRetry_loop fn attempt lastError n ws s =
             \<lparr>settled = fst (invocation fn s (Suc k)), calls = n + Suc k + 1,
              waits = ws @ map backoff [attempt..<attempt + Suc k],
              after = snd (invocation fn s (Suc k))\<rparr>"
          using step run ws fs by (simp add: backoff_def)
        moreover have "\<forall>j<Suc k. rate_limited (fst (invocation fn s j))"
        proof (intro allI impI)
          fix j assume "j < Suc k"
          then show "rate_limited (fst (invocation fn s j))"
            using rl0 before fs by (cases j) auto
        qed
        moreover have "attempt + Suc k < MAX_RETRIES - 1
                         \<longrightarrow> \<not> rate_limited (fst (invocation fn s (Suc k)))"
          using stop fs by simp
        ultimately show ?thesis using k by (intro exI [of _ "Suc k"]) simp
      qed
    qed
  qed
qed

text \<open>
  C1 (as amended). \<open>withRetry\<close> invokes the operation at most 5 times, that is, it
  retries at most 4 times: it stops at some invocation \<open>k < 5\<close> (counted from 0), every
  invocation before it failed with a rate-limit error and was followed by a wait of
  \<open>1000 * 2 ^ a\<close> milliseconds (\<open>a\<close> the number of that invocation: 1 s, 2 s, 4 s, 8 s), and
  the wrapper settles with the outcome of invocation \<open>k\<close>. If all 5 invocations fail with
  a rate-limit error, the error of the fifth is thrown, after 5 invocations and the four
  waits.
\<close>

theorem withRetry_attempts:
  "(\<exists>k<5. calls (withRetry fn s) = k + 1
       \<and> waits (withRetry fn s) = map (\<lambda>a. 1000 * 2 ^ a) [0..<k]
       \<and> settled (withRetry fn s) = fst (invocation fn s k)
       \<and> (\<forall>j<k. rate_limited (fst (invocation fn s j)))
       \<and> (rate_limited (fst (invocation fn s k)) \<longrightarrow> k = 4))
   \<and> ((\<forall>k<5. rate_limited (fst (invocation fn s k))) \<longrightarrow>
        calls (withRetry fn s) = 5
        \<and> waits (withRetry fn s) = [1000, 2000, 4000, 8000]
        \<and> settled (withRetry fn s) = fst (invocation fn s 4))"
proof -
  have "0 < MAX_RETRIES" by (simp add: MAX_RETRIES_def)
  from withRetry_loop_trace [OF this, of fn JUndefined 0 "[]" s]
  obtain k where k: "k < MAX_RETRIES"
    and run: "withRetry fn s =
         \<lparr>settled = fst (invocation fn s k), calls = k + 1,
          waits = map backoff [0..<k], after = snd (invocation fn s k)\<rparr>"
    and before: "\<forall>j<k. rate_limited (fst (invocation fn s j))"
    and stop: "k < MAX_RETRIES - 1 \<longrightarrow> \<not> rate_limited (fst (invocation fn s k))"
    by (auto simp: withRetry_def)
  have last: "rate_limited (fst (invocation fn s k)) \<longrightarrow> k = 4"
    using k stop by (auto simp: MAX_RETRIES_def)
  have shape: "calls (withRetry fn s) = k + 1"
    "waits (withRetry fn s) = map (\<lambda>a. 1000 * 2 ^ a) [0..<k]"
    "settled (withRetry fn s) = fst (invocation fn s k)"
    using run by (simp_all add: backoff_def [abs_def] INITIAL_DELAY_MS_def)
  have general: "\<exists>k<5. calls (withRetry fn s) = k + 1
       \<and> waits (withRetry fn s) = map (\<lambda>a. 1000 * 2 ^ a) [0..<k]
       \<and> settled (withRetry fn s) = fst (invocation fn s k)
       \<and> (\<forall>j<k. rate_limited (fst (invocation fn s j)))
       \<and> (rate_limited (fst (invocation fn s k)) \<longrightarrow> k = 4)"
    using k shape before last by (intro exI [of _ k]) (simp add: MAX_RETRIES_def)
  have exhausted: "calls (withRetry fn s) = 5
        \<and> waits (withRetry fn s) = [1000, 2000, 4000, 8000]
        \<and> settled (withRetry fn s) = fst (invocation fn s 4)"
    if all: "\<forall>k<5. rate_limited (fst (invocation fn s k))"
  proof -
    from all k have "rate_limited (fst (invocation fn s k))" by (simp add: MAX_RETRIES_def)
    with last have "k = 4" by simp
    moreover have "[0..<4] = [0, 1, 2, 3 :: nat]" by (simp add: upt_rec)
    ultimately show ?thesis using shape by simp
  qed
  from general exhausted show ?thesis by blast
qed

theorem withRetry_attempts_witness:
  "calls (withRetry replay
            [Inl tooManyRequests, Inl tooManyRequests, Inl tooManyRequests,
             Inl tooManyRequests, Inl serverError, Inr (7::nat)]) = 5
   \<and> waits (withRetry replay
            [Inl tooManyRequests, Inl tooManyRequests, Inl tooManyRequests,
             Inl tooManyRequests, Inl serverError, Inr (7::nat)]) = [1000, 2000, 4000, 8000]
   \<and> settled (withRetry replay
            [Inl tooManyRequests, Inl tooManyRequests, Inl tooManyRequests,
             Inl tooManyRequests, Inl serverError, Inr (7::nat)]) = Inl serverError"
proof -
  let ?s = "[Inl tooManyRequests, Inl tooManyRequests, Inl tooManyRequests,
             Inl tooManyRequests, Inl serverError, Inr (7::nat)]"
  have inv: "fst (invocation replay ?s 0) = Inl tooManyRequests"
    "fst (invocation replay ?s 1) = Inl tooManyRequests"
    "fst (invocation replay ?s 2) = Inl tooManyRequests"
    "fst (invocation replay ?s 3) = Inl tooManyRequests"
    "fst (invocation replay ?s 4) = Inl serverError"
    by (simp_all add: numeral_eq_Suc)
  have limited: "rate_limited (Inl tooManyRequests :: nat outcome)"
    by (simp add: rate_limited_def tooManyRequests_def)
  have other: "\<not> rate_limited (Inl serverError :: nat outcome)"
    by (simp add: rate_limited_def serverError_def)
  from withRetry_attempts [of replay ?s]
  obtain k where k: "k < 5"
    and shape: "calls (withRetry replay ?s) = k + 1"
      "waits (withRetry replay ?s) = map (\<lambda>a. 1000 * 2 ^ a) [0..<k]"
      "settled (withRetry replay ?s) = fst (invocation replay ?s k)"
    and before: "\<forall>j<k. rate_limited (fst (invocation replay ?s j))"
    and last: "rate_limited (fst (invocation replay ?s k)) \<longrightarrow> k = 4"
    by blast
  from k have "k = 0 \<or> k = 1 \<or> k = 2 \<or> k = 3 \<or> k = 4" by arith
  with last inv limited have "k = 4" by auto
  moreover have "[0..<4] = [0, 1, 2, 3 :: nat]" by (simp add: upt_rec)
  ultimately show ?thesis using shape inv by simp
qed

text \<open>
  C1 as stated fails: the wrapper does not retry 5 times and never waits 16 s. An
  operation that fails with a rate-limit error five times and would succeed on its sixth
  invocation is given up after the fifth, with four waits.
\<close>

theorem withRetry_fifth_retry_counterexample:
  "calls (withRetry replay
            [Inl tooManyRequests, Inl tooManyRequests, Inl tooManyRequests,
             Inl tooManyRequests, Inl tooManyRequests, Inr (7::nat)]) = 5
   \<and> waits (withRetry replay
            [Inl tooManyRequests, Inl tooManyRequests, Inl tooManyRequests,
             Inl tooManyRequests, Inl tooManyRequests, Inr (7::nat)]) = [1000, 2000, 4000, 8000]
   \<and> settled (withRetry replay
            [Inl tooManyRequests, Inl tooManyRequests, Inl tooManyRequests,
             Inl tooManyRequests, Inl tooManyRequests, Inr (7::nat)]) = Inl tooManyRequests
   \<and> after (withRetry replay
            [Inl tooManyRequests, Inl tooManyRequests, Inl tooManyRequests,
             Inl tooManyRequests, Inl tooManyRequests, Inr (7::nat)]) = [Inr 7]"
  by (simp add: withRetry_def withRetry_loop.simps MAX_RETRIES_def INITIAL_DELAY_MS_def
        tooManyRequests_def)

text \<open>
  C2. If the first invocation fails with an error that is not a rate-limit error, the
  wrapper invokes the operation exactly once, waits not at all and throws that error.
\<close>

theorem withRetry_other_error_once:
  assumes "fn s = (Inl e, s')" and "\<not> isRateLimitError e"
  shows "withRetry fn s = \<lparr>settled = Inl e, calls = 1, waits = [], after = s'\<rparr>"
  using assms by (simp add: withRetry_def withRetry_loop.simps [of fn 0] MAX_RETRIES_def)

theorem withRetry_other_error_once_witness:
  "withRetry replay [Inl serverError, Inr (7::nat)]
     = \<lparr>settled = Inl serverError, calls = 1, waits = [], after = [Inr 7]\<rparr>"
  using withRetry_other_error_once
          [of replay "[Inl serverError, Inr (7::nat)]" serverError "[Inr 7]"]
  by (simp add: serverError_def)

text \<open>
  C3. If the first \<open>N < 5\<close> invocations fail with a rate-limit error and invocation
  \<open>N + 1\<close> succeeds, the wrapper returns the success value after \<open>N + 1\<close> invocations, and
  the waits are the first \<open>N\<close> backoff delays, \<open>1000 * 2 ^ a\<close> for \<open>a = 0..N-1\<close>, so that the
  total time waited is their sum.
\<close>

theorem withRetry_recovers:
  assumes "N < 5"
    and "\<forall>k<N. rate_limited (fst (invocation fn s k))"
    and "fst (invocation fn s N) = Inr v"
  shows "settled (withRetry fn s) = Inr v
     \<and> calls (withRetry fn s) = N + 1
     \<and> waits (withRetry fn s) = map (\<lambda>a. 1000 * 2 ^ a) [0..<N]
     \<and> sum_list (waits (withRetry fn s)) = (\<Sum>a<N. 1000 * 2 ^ a)"
proof -
  have "0 < MAX_RETRIES" by (simp add: MAX_RETRIES_def)
  from withRetry_loop_trace [OF this, of fn JUndefined 0 "[]" s]
  obtain k where k: "k < MAX_RETRIES"
    and run: "withRetry fn s =
         \<lparr>settled = fst (invocation fn s k), calls = k + 1,
          waits = map backoff [0..<k], after = snd (invocation fn s k)\<rparr>"
    and before: "\<forall>j<k. rate_limited (fst (invocation fn s j))"
    and stop: "k < MAX_RETRIES - 1 \<longrightarrow> \<not> rate_limited (fst (invocation fn s k))"
    by (auto simp: withRetry_def)
  have "\<not> k < N"
  proof
    assume "k < N"
    with assms(1,2) stop show False by (simp add: MAX_RETRIES_def)
  qed
  moreover have "\<not> N < k"
  proof
    assume "N < k"
    with before have "rate_limited (fst (invocation fn s N))" by simp
    with assms(3) show False by (simp add: rate_limited_def)
  qed
  ultimately have kN: "k = N" by simp
  have "sum_list (map (\<lambda>a. 1000 * 2 ^ a) [0..<N]) = (\<Sum>a<N. 1000 * 2 ^ a :: nat)"
    by (simp add: interv_sum_list_conv_sum_set_nat lessThan_atLeast0)
  with run kN assms(3) show ?thesis
    by (simp add: backoff_def [abs_def] INITIAL_DELAY_MS_def)
qed

theorem withRetry_recovers_witness:
  "settled (withRetry replay [Inl tooManyRequests, Inl tooManyRequests, Inr (7::nat)]) = Inr 7
   \<and> waits (withRetry replay [Inl tooManyRequests, Inl tooManyRequests, Inr (7::nat)])
       = [1000, 2000]
   \<and> sum_list (waits (withRetry replay [Inl tooManyRequests, Inl tooManyRequests, Inr (7::nat)]))
       = 3000"
proof -
  let ?s = "[Inl tooManyRequests, Inl tooManyRequests, Inr (7::nat)]"
  have "(2::nat) < 5" by simp
  moreover have "\<forall>k<2. rate_limited (fst (invocation replay ?s k))"
    by (auto simp: less_Suc_eq numeral_2_eq_2 rate_limited_def tooManyRequests_def)
  moreover have "fst (invocation replay ?s 2) = Inr 7"
    by (simp add: numeral_2_eq_2)
  ultimately show ?thesis
    using withRetry_recovers [of 2 replay ?s 7] by (simp add: lessThan_Suc numeral_2_eq_2)
qed

section \<open>Properties of the client initializer\<close>

text \<open>Unfolding a run on the scripted model service.\<close>

lemmas scripted_run =
  initializeClient_def remote_def scripted_platform_def scripted_world_def fresh_def
  next_answer_def next_stream_def withRetry_def withRetry_loop.simps MAX_RETRIES_def
  INITIAL_DELAY_MS_def

lemma initializeClient_cached:
  assumes "contentGenerator w = Some c" and "generatorConfig w = Some g"
  shows "initializeClient lib w = (Inr \<lparr>client = c, config = g\<rparr>, w)"
  using assms by (simp add: initializeClient_def)

lemma initializeClient_fills:
  assumes "initializeClient lib w = (Inr h, w')"
  shows "contentGenerator w' = Some (client h) \<and> generatorConfig w' = Some (config h)"
  using assms
  by (auto simp: initializeClient_def remote_def Let_def
           split: option.splits prod.splits sum.splits)

text \<open>
  C9. Once a call of \<open>initializeClient\<close> has completed successfully, every later call
  (whatever happened in between, as long as the two module variables are what that call
  left) returns the same client and configuration handles and changes nothing: no factory
  is invoked and no network call is made.
\<close>

theorem initializeClient_memoized:
  assumes "initializeClient lib w = (Inr h, w')"
    and "contentGenerator w'' = contentGenerator w'"
    and "generatorConfig w'' = generatorConfig w'"
  shows "initializeClient lib' w'' = (Inr h, w'')"
  using initializeClient_fills [OF assms(1)] assms(2,3)
  by (simp add: initializeClient_cached)

theorem initializeClient_memoized_witness:
  "initializeClient scripted_platform
     \<lparr>contentGenerator = Some (ContentGenerator 1),
      generatorConfig = Some (ContentGeneratorConfig 1),
      outside = \<lparr>script = [], files = []\<rparr>,
      network = [CreateConfig, CreateClient], slept = [], stdout = []\<rparr>
   = (Inr \<lparr>client = ContentGenerator 1, config = ContentGeneratorConfig 1\<rparr>,
      \<lparr>contentGenerator = Some (ContentGenerator 1),
       generatorConfig = Some (ContentGeneratorConfig 1),
       outside = \<lparr>script = [], files = []\<rparr>,
       network = [CreateConfig, CreateClient], slept = [], stdout = []\<rparr>)"
proof -
  have first: "initializeClient scripted_platform (scripted_world [])
    = (Inr \<lparr>client = ContentGenerator 1, config = ContentGeneratorConfig 1\<rparr>,
      \<lparr>contentGenerator = Some (ContentGenerator 1),
       generatorConfig = Some (ContentGeneratorConfig 1),
       outside = \<lparr>script = [], files = []\<rparr>,
       network = [CreateConfig, CreateClient], slept = [], stdout = []\<rparr>)"
    by (simp add: initializeClient_def remote_def scripted_platform_def scripted_world_def
          fresh_def)
  show ?thesis
    by (rule initializeClient_memoized [OF first refl refl])
qed

section \<open>Properties of the stages\<close>

lemma push_sources_map:
  "push_sources chunks pushed
     = pushed @ map (\<lambda>x. \<lparr>title = web_title x, uri = web_uri x\<rparr>) (List.map_filter web chunks)"
  by (induction chunks arbitrary: pushed) (simp_all add: List.map_filter_simps split: option.split)

lemma extract_sources_read:
  "extract_sources (result_groundingMetadata (read_response response))
     = map (\<lambda>x. \<lparr>title = web_title x, uri = web_uri x\<rparr>) (cited response)"
  by (simp add: extract_sources_def read_response_def cited_def push_sources_map
        List.map_filter_simps split: option.split)

text \<open>
  C10. For the response the researcher's request yields, the result carries the question,
  the response's text as findings, and as sources one entry \<open>{title, uri}\<close> per grounding
  chunk that has a \<open>web\<close> field, in the order of the chunks. Without grounding metadata,
  without a chunk list or with an empty one, the sources are empty.
\<close>

theorem runResearcher_sources:
  assumes "initializeClient lib w = (Inr h, w1)"
    and "settled (withRetry
           (remote GenerateContentCall
              (client_generateContent lib (client h)
                 (build_request researcher_instruction (researcher_prompt q)
                    \<lparr>useGoogleSearch = True, jsonSchema = None\<rparr>))) w1) = Inr response"
  shows "fst (runResearcher lib q w) =
           Inr \<lparr>question = q, findings = result_text (read_response response),
                sources = map (\<lambda>x. \<lparr>title = web_title x, uri = web_uri x\<rparr>) (cited response)\<rparr>
       \<and> extract_sources None = []
       \<and> extract_sources (Some \<lparr>groundingChunks = None\<rparr>) = []
       \<and> extract_sources (Some \<lparr>groundingChunks = Some []\<rparr>) = []"
proof -
  have "fst (runResearcher lib q w) =
           Inr \<lparr>question = q, findings = result_text (read_response response),
                sources = map (\<lambda>x. \<lparr>title = web_title x, uri = web_uri x\<rparr>) (cited response)\<rparr>"
    using assms
    by (simp add: runResearcher_def generateContent_def Let_def extract_sources_read)
  moreover have "extract_sources None = []"
    "extract_sources (Some \<lparr>groundingChunks = None\<rparr>) = []"
    "extract_sources (Some \<lparr>groundingChunks = Some []\<rparr>) = []"
    by (simp_all add: extract_sources_def)
  ultimately show ?thesis by simp
qed

theorem runResearcher_sources_witness:
  "fst (runResearcher scripted_platform ''tea'' (scripted_world [Answer grounded])) =
     Inr \<lparr>question = ''tea'', findings = ''tea is a drink'',
          sources = [\<lparr>title = Some ''A'', uri = Some ''https://a.example''\<rparr>,
                     \<lparr>title = None, uri = Some ''https://b.example''\<rparr>]\<rparr>"
proof -
  let ?w1 = "\<lparr>contentGenerator = Some (ContentGenerator 1),
       generatorConfig = Some (ContentGeneratorConfig 1),
       outside = \<lparr>script = [Answer grounded], files = []\<rparr>,
       network = [CreateConfig, CreateClient], slept = [], stdout = []\<rparr>"
  let ?h = "\<lparr>client = ContentGenerator 1, config = ContentGeneratorConfig 1\<rparr>"
  have init: "initializeClient scripted_platform (scripted_world [Answer grounded]) = (Inr ?h, ?w1)"
    by (simp add: scripted_run)
  have call: "settled (withRetry
           (remote GenerateContentCall
              (client_generateContent scripted_platform (client ?h)
                 (build_request researcher_instruction (researcher_prompt ''tea'')
                    \<lparr>useGoogleSearch = True, jsonSchema = None\<rparr>))) ?w1) = Inr grounded"
    by (simp add: scripted_run)
  have said: "result_text (read_response grounded) = ''tea is a drink''"
    by (simp add: read_response_def grounded_def first_candidate_def candidate_parts_def)
  have webs: "cited grounded =
      [\<lparr>web_uri = Some ''https://a.example'', web_title = Some ''A''\<rparr>,
       \<lparr>web_uri = Some ''https://b.example'', web_title = None\<rparr>]"
    by (simp add: cited_def grounded_def first_candidate_def List.map_filter_simps)
  from runResearcher_sources [OF init call] show ?thesis
    by (simp add: said webs)
qed

lemma each_part_fragments:
  "each_part ps (fullText, emitted)
     = (fullText @ concat (List.map_filter part_text ps),
        emitted @ filter (\<lambda>t. t \<noteq> []) (List.map_filter part_text ps))"
  by (induction ps arbitrary: fullText emitted)
     (simp_all add: List.map_filter_simps split: option.split)

lemma each_chunk_fragments:
  "each_chunk chunks (fullText, emitted)
     = (fullText @ concat (text_fragments chunks),
        emitted @ filter (\<lambda>t. t \<noteq> []) (text_fragments chunks))"
  by (induction chunks arbitrary: fullText emitted)
     (simp_all add: text_fragments_def chunk_fragments_def each_part_fragments
        split: option.split)

text \<open>
  C6. When the writer's stream request yields a stream that delivers \<open>chunks\<close> and ends,
  the writer returns the concatenation of all text fragments of the chunks in arrival
  order; the loop also passes the non-empty fragments to \<open>onText\<close> in the same order.
\<close>

theorem runWriter_text:
  assumes "initializeClient lib w = (Inr h, w1)"
    and "settled (withRetry
           (remote GenerateContentStreamCall
              (client_generateContentStream lib (client h)
                 (build_request writer_instruction (writer_prompt topic fs)
                    \<lparr>useGoogleSearch = False, jsonSchema = None\<rparr>))) w1) = Inr (chunks, None)"
  shows "fst (runWriter lib topic fs w) = Inr (concat (text_fragments chunks))
       \<and> each_chunk chunks ([], []) =
           (concat (text_fragments chunks), filter (\<lambda>t. t \<noteq> []) (text_fragments chunks))"
  using assms
  by (simp add: runWriter_def streamContent_def Let_def each_chunk_fragments)

theorem runWriter_text_witness:
  "fst (runWriter scripted_platform ''tea'' []
          (scripted_world [Chunks [say ''# Tea'', say [], say '' report'']])) = Inr ''# Tea report''"
proof -
  let ?cs = "[say ''# Tea'', say [], say '' report'']"
  let ?w1 = "\<lparr>contentGenerator = Some (ContentGenerator 1),
       generatorConfig = Some (ContentGeneratorConfig 1),
       outside = \<lparr>script = [Chunks ?cs], files = []\<rparr>,
       network = [CreateConfig, CreateClient], slept = [], stdout = []\<rparr>"
  let ?h = "\<lparr>client = ContentGenerator 1, config = ContentGeneratorConfig 1\<rparr>"
  have init: "initializeClient scripted_platform (scripted_world [Chunks ?cs]) = (Inr ?h, ?w1)"
    by (simp add: scripted_run)
  have call: "settled (withRetry
           (remote GenerateContentStreamCall
              (client_generateContentStream scripted_platform (client ?h)
                 (build_request writer_instruction (writer_prompt ''tea'' [])
                    \<lparr>useGoogleSearch = False, jsonSchema = None\<rparr>))) ?w1) = Inr (?cs, None)"
    by (simp add: scripted_run)
  have frags: "text_fragments ?cs = [''# Tea'', [], '' report'']"
    by (simp add: text_fragments_def chunk_fragments_def say_def first_candidate_def
          candidate_parts_def List.map_filter_simps)
  from runWriter_text [OF init call] show ?thesis
    by (simp add: frags)
qed

lemma all_strings_map: "all_strings (map JStr qs) = Some qs"
  by (induction qs) simp_all

lemma all_strings_Some: "all_strings items = Some qs \<Longrightarrow> items = map JStr qs"
  by (induction items arbitrary: qs rule: all_strings.induct) auto

lemma all_strings_iff: "(all_strings items = Some qs) = (items = map JStr qs)"
  using all_strings_Some all_strings_map by blast

lemma map_JStr_eq: "(map JStr xs = map JStr ys) = (xs = ys)"
  by (rule inj_map_eq_map) (simp add: inj_def)

lemma researchPlanSchema_parse_iff:
  "(researchPlanSchema_parse j = Inr plan) =
     (\<exists>props. j = JObj props
        \<and> map_of props ''questions'' = Some (JArr (map JStr (questions plan)))
        \<and> map_of props ''rationale'' = Some (JStr (rationale plan)))"
proof (cases j)
  case (JObj props)
  show ?thesis
    unfolding JObj
    by (cases plan)
       (auto simp: all_strings_iff all_strings_map map_JStr_eq split: option.splits jsval.splits)
qed simp_all

text \<open>
  C7 (as amended). The coordinator returns a plan exactly when the model call succeeded,
  its text parsed as JSON to an object whose \<open>questions\<close> is an array of strings
  (possibly empty) and whose \<open>rationale\<close> is a string; the plan then holds exactly these
  questions, in order, and this rationale. In every other case it fails.
\<close>

theorem runCoordinator_plan:
  "(fst (runCoordinator lib topic w) = Inr plan) =
     (\<exists>g props.
        fst (generateContent lib coordinator_instruction (coordinator_prompt topic)
               \<lparr>useGoogleSearch = False, jsonSchema = Some ResearchPlanSchema\<rparr> w) = Inr g
        \<and> JSON_parse lib (result_text g) = Some (JObj props)
        \<and> map_of props ''questions'' = Some (JArr (map JStr (questions plan)))
        \<and> map_of props ''rationale'' = Some (JStr (rationale plan)))"
  by (auto simp: runCoordinator_def researchPlanSchema_parse_iff
           split: prod.splits sum.splits option.splits)

theorem runCoordinator_plan_witness:
  "fst (runCoordinator scripted_platform ''tea''
          (scripted_world [Answer (say two_question_plan)]))
     = Inr \<lparr>questions = [''who'', ''why''], rationale = ''ask''\<rparr>"
proof -
  let ?w = "scripted_world [Answer (say two_question_plan)]"
  let ?g = "\<lparr>result_text = two_question_plan, result_groundingMetadata = None\<rparr>"
  let ?props = "[(''questions'', JArr [JStr ''who'', JStr ''why'']), (''rationale'', JStr ''ask'')]"
  have gen: "fst (generateContent scripted_platform coordinator_instruction
               (coordinator_prompt ''tea'')
               \<lparr>useGoogleSearch = False, jsonSchema = Some ResearchPlanSchema\<rparr> ?w) = Inr ?g"
    by (simp add: generateContent_def scripted_run Let_def read_response_def
        say_def first_candidate_def candidate_parts_def)
  have parse: "JSON_parse scripted_platform (result_text ?g) = Some (JObj ?props)"
    by (simp add: scripted_platform_def parse_examples_def two_question_plan_def
          no_question_plan_def)
  have "\<exists>g props.
        fst (generateContent scripted_platform coordinator_instruction (coordinator_prompt ''tea'')
               \<lparr>useGoogleSearch = False, jsonSchema = Some ResearchPlanSchema\<rparr> ?w) = Inr g
        \<and> JSON_parse scripted_platform (result_text g) = Some (JObj props)
        \<and> map_of props ''questions''
            = Some (JArr (map JStr (questions \<lparr>questions = [''who'', ''why''], rationale = ''ask''\<rparr>)))
        \<and> map_of props ''rationale''
            = Some (JStr (rationale \<lparr>questions = [''who'', ''why''], rationale = ''ask''\<rparr>))"
    using gen parse by (intro exI [of _ ?g] exI [of _ ?props]) simp
  then show ?thesis
    by (rule runCoordinator_plan [THEN iffD2])
qed

text \<open>
  C7 as stated fails: the schema accepts an empty array, so the coordinator returns a plan
  without questions when the model answers with one.
\<close>

theorem runCoordinator_empty_plan_counterexample:
  "fst (runCoordinator scripted_platform ''tea'' (scripted_world [Answer (say no_question_plan)]))
     = Inr \<lparr>questions = [], rationale = ''nothing to ask''\<rparr>"
  by (simp add: runCoordinator_def generateContent_def scripted_run Let_def read_response_def
        say_def first_candidate_def candidate_parts_def parse_examples_def
        no_question_plan_def two_question_plan_def)

section \<open>Properties of the parallel research phase\<close>

lemma those_Some_nth:
  "those xs = Some ys \<Longrightarrow> length ys = length xs \<and> (\<forall>j<length xs. xs ! j = Some (ys ! j))"
proof (induction xs arbitrary: ys)
  case Nil
  then show ?case by simp
next
  case (Cons x xs)
  from Cons.prems obtain y zs where x: "x = Some y" and zs: "those xs = Some zs"
    and ys: "ys = y # zs"
    by (auto split: option.splits)
  from Cons.IH [OF zs] show ?case
    by (auto simp: x ys nth_Cons split: nat.splits)
qed

lemma those_None_iff: "(those xs = None) = (None \<in> set xs)"
  by (induction xs) (auto split: option.splits)

lemma settle_all_resolved:
  assumes "settle_all task es slots s = (Some (Inr vs), s')"
    and "distinct (map fst es)"
    and "\<forall>(i, q)\<in>set es. i < length slots"
    and good: "\<And>q s v s'. task q s = (Inr v, s') \<Longrightarrow> P q v"
  shows "length vs = length slots
     \<and> (\<forall>(i, q)\<in>set es. P q (vs ! i))
     \<and> (\<forall>j<length slots. j \<notin> fst ` set es \<longrightarrow> slots ! j = Some (vs ! j))"
  using assms(1-3)
proof (induction es arbitrary: slots s)
  case Nil
  then have "those slots = Some vs" by auto
  from those_Some_nth [OF this] show ?case by simp
next
  case (Cons a es)
  obtain i q where a: "a = (i, q)" by (cases a)
  from Cons.prems(1) obtain v s1 where t: "task q s = (Inr v, s1)"
    and rest: "settle_all task es (slots[i := Some v]) s1 = (Some (Inr vs), s')"
    by (auto simp: a split: prod.splits sum.splits)
  from Cons.prems(2) have d: "distinct (map fst es)" and fresh: "i \<notin> fst ` set es"
    by (auto simp: a)
  from Cons.prems(3) have i: "i < length slots"
    and bound: "\<forall>(j, q)\<in>set es. j < length (slots[i := Some v])"
    by (auto simp: a)
  from Cons.IH [OF rest d bound]
  have len: "length vs = length slots"
    and each: "\<forall>(i, q)\<in>set es. P q (vs ! i)"
    and kept: "\<forall>j<length slots. j \<notin> fst ` set es \<longrightarrow> (slots[i := Some v]) ! j = Some (vs ! j)"
    by auto
  from kept i fresh have "vs ! i = v" by auto
  with good [OF t] have "P q (vs ! i)" by simp
  moreover have "\<forall>j<length slots. j \<notin> fst ` set (a # es) \<longrightarrow> slots ! j = Some (vs ! j)"
    using kept by (auto simp: a)
  ultimately show ?case using len each by (auto simp: a)
qed

lemma settle_all_settles:
  assumes "\<forall>j<length slots. slots ! j \<noteq> None \<or> j \<in> fst ` set es"
  shows "fst (settle_all task es slots s) \<noteq> None"
  using assms
proof (induction es arbitrary: slots s)
  case Nil
  then have "None \<notin> set slots" by (auto simp: in_set_conv_nth)
  then show ?case by (simp add: those_None_iff)
next
  case (Cons a es)
  obtain i q where a: "a = (i, q)" by (cases a)
  obtain r s1 where t: "task q s = (r, s1)" by (cases "task q s")
  show ?case
  proof (cases r)
    case (Inl e)
    with t show ?thesis by (simp add: a)
  next
    case (Inr v)
    have "\<forall>j<length (slots[i := Some v]). (slots[i := Some v]) ! j \<noteq> None \<or> j \<in> fst ` set es"
    proof (intro allI impI)
      fix j assume j: "j < length (slots[i := Some v])"
      show "(slots[i := Some v]) ! j \<noteq> None \<or> j \<in> fst ` set es"
      proof (cases "j = i")
        case True
        with j show ?thesis by simp
      next
        case False
        with j Cons.prems have "slots ! j \<noteq> None \<or> j \<in> fst ` set es"
          by (auto simp: a)
        with False show ?thesis by simp
      qed
    qed
    from Cons.IH [OF this] show ?thesis using t Inr by (simp add: a)
  qed
qed

lemma settle_all_no_rejection:
  assumes "\<forall>q\<in>snd ` set es. \<forall>s. \<exists>v s'. task q s = (Inr v, s')"
  shows "fst (settle_all task es slots s) \<noteq> Some (Inl e)"
  using assms
proof (induction es arbitrary: slots s)
  case Nil
  then show ?case by (cases "those slots") auto
next
  case (Cons a es)
  obtain i q where a: "a = (i, q)" by (cases a)
  from Cons.prems obtain v s1 where t: "task q s = (Inr v, s1)"
    by (fastforce simp: a)
  from Cons.prems have "\<forall>q\<in>snd ` set es. \<forall>s. \<exists>v s'. task q s = (Inr v, s')" by simp
  from Cons.IH [OF this] show ?case using t by (simp add: a)
qed

lemma set_completion_order: "set (completion_order finish qs) = set (enumerate 0 qs)"
  by (simp add: completion_order_def)

lemma distinct_completion_order: "distinct (map fst (completion_order finish qs))"
proof -
  have "distinct (map fst (enumerate 0 qs))" by simp
  from this [unfolded distinct_map] show ?thesis
    by (simp add: distinct_map completion_order_def)
qed

lemma runResearcher_question:
  "runResearcher lib q w = (Inr r, w') \<Longrightarrow> question r = q"
  by (auto simp: runResearcher_def split: prod.splits sum.splits)

lemma index_set_completion_order: "fst ` set (completion_order finish qs) = {0..<length qs}"
proof -
  have "set (map fst (enumerate 0 qs)) = {0..<length qs}"
    by simp
  then show ?thesis
    unfolding set_map by (simp only: set_completion_order)
qed

lemma research_all_settles: "fst (research_all lib finish qs w) \<noteq> None"
  unfolding research_all_def
  by (rule settle_all_settles) (simp add: index_set_completion_order)

lemma research_all_settled:
  "research_all lib finish qs w = (r, w') \<Longrightarrow> r \<noteq> None"
  using research_all_settles [of lib finish qs w] by simp

text \<open>
  C5. Whatever the order in which the requests complete, the research phase settles; if
  it resolves, it resolves with exactly one result per question of the plan, the
  \<open>i\<close>-th result being the one for the \<open>i\<close>-th question; and it does resolve so
  when no request fails.
\<close>

theorem research_all_question_order:
  "fst (research_all lib finish qs w) \<noteq> None
   \<and> (\<forall>results. fst (research_all lib finish qs w) = Some (Inr results) \<longrightarrow>
         length results = length qs \<and> map question results = qs)
   \<and> ((\<forall>q\<in>set qs. \<forall>w. \<exists>r w'. runResearcher lib q w = (Inr r, w')) \<longrightarrow>
         (\<exists>results. fst (research_all lib finish qs w) = Some (Inr results)
            \<and> length results = length qs \<and> map question results = qs))"
proof -
  let ?es = "completion_order finish qs"
  let ?slots = "replicate (length qs) (None :: ResearchResult option)"
  have settles: "fst (research_all lib finish qs w) \<noteq> None"
    by (rule research_all_settles)
  have ordered: "length results = length qs \<and> map question results = qs"
    if res: "fst (research_all lib finish qs w) = Some (Inr results)" for results
  proof -
    obtain w' where run: "settle_all (runResearcher lib) ?es ?slots w = (Some (Inr results), w')"
      using res unfolding research_all_def by (cases "settle_all (runResearcher lib) ?es ?slots w") simp
    have bound: "\<forall>(i, q)\<in>set ?es. i < length ?slots"
      by (auto simp: set_completion_order in_set_enumerate_eq)
    have good: "question r = q" if "runResearcher lib q s = (Inr r, s')" for q s r s'
      using that by (rule runResearcher_question)
    from settle_all_resolved
           [where P = "\<lambda>q r. question r = q", OF run distinct_completion_order bound good]
    have len: "length results = length qs"
      and each: "\<forall>(i, q)\<in>set ?es. question (results ! i) = q"
      by simp_all
    have "question (results ! i) = qs ! i" if "i < length qs" for i
    proof -
      from that have "(i, qs ! i) \<in> set ?es"
        by (simp add: set_completion_order in_set_enumerate_eq)
      with each show ?thesis by auto
    qed
    with len have "map question results = qs"
      by (intro nth_equalityI) simp_all
    with len show ?thesis by simp
  qed
  have succeeds: "\<exists>results. fst (research_all lib finish qs w) = Some (Inr results)
            \<and> length results = length qs \<and> map question results = qs"
    if all: "\<forall>q\<in>set qs. \<forall>w. \<exists>r w'. runResearcher lib q w = (Inr r, w')"
  proof -
    have "snd ` set ?es \<subseteq> set qs"
      by (auto simp: set_completion_order in_set_enumerate_eq)
    with all have "\<forall>q\<in>snd ` set ?es. \<forall>s. \<exists>v s'. runResearcher lib q s = (Inr v, s')"
      by blast
    from settle_all_no_rejection [OF this]
    have "fst (research_all lib finish qs w) \<noteq> Some (Inl e)" for e
      by (simp add: research_all_def)
    then have no: "\<And>e. fst (research_all lib finish qs w) \<noteq> Some (Inl e)" .
    from settles obtain r where r: "fst (research_all lib finish qs w) = Some r"
      by auto
    with no obtain results where "fst (research_all lib finish qs w) = Some (Inr results)"
      by (cases r) auto
    with ordered show ?thesis by blast
  qed
  from settles ordered succeeds show ?thesis by blast
qed

lemma echo_researcher:
  "\<exists>r w'. runResearcher echo_platform q w = (Inr r, w')"
  by (auto simp: runResearcher_def generateContent_def initializeClient_def remote_def
        echo_platform_def withRetry_def withRetry_loop.simps [of _ 0] MAX_RETRIES_def Let_def
      split: option.splits)

theorem research_all_question_order_witness:
  "(\<exists>results. fst (research_all echo_platform last_first [''who'', ''why''] (fresh ()))
        = Some (Inr results)
      \<and> length results = 2 \<and> map question results = [''who'', ''why''])
   \<and> (\<exists>results. fst (research_all scripted_platform last_first [''who'', ''why'']
                       (scripted_world [Answer (say ''first''), Answer grounded]))
        = Some (Inr results)
      \<and> map question results = [''who'', ''why'']
      \<and> map findings results = [''tea is a drink'', ''first''])"
proof -
  have "\<forall>q\<in>set [''who'', ''why'']. \<forall>w. \<exists>r w'. runResearcher echo_platform q w = (Inr r, w')"
    using echo_researcher by blast
  with research_all_question_order [of echo_platform last_first "[''who'', ''why'']" "fresh ()"]
  have "\<exists>results. fst (research_all echo_platform last_first [''who'', ''why''] (fresh ()))
        = Some (Inr results)
      \<and> length results = length [''who'', ''why''] \<and> map question results = [''who'', ''why'']"
    by blast
  then have first: "\<exists>results. fst (research_all echo_platform last_first [''who'', ''why''] (fresh ()))
        = Some (Inr results)
      \<and> length results = 2 \<and> map question results = [''who'', ''why'']"
    by (simp add: numeral_2_eq_2)
  let ?w = "scripted_world [Answer (say ''first''), Answer grounded]"
  let ?rs = "[\<lparr>question = ''who'', findings = ''tea is a drink'',
                    sources = [\<lparr>title = Some ''A'', uri = Some ''https://a.example''\<rparr>,
                               \<lparr>title = None, uri = Some ''https://b.example''\<rparr>]\<rparr>,
                  \<lparr>question = ''why'', findings = ''first'', sources = []\<rparr>]"
  have run: "fst (research_all scripted_platform last_first [''who'', ''why''] ?w) = Some (Inr ?rs)"
    by (simp add: research_all_def completion_order_def last_first_def runResearcher_def
          generateContent_def scripted_run Let_def read_response_def say_def
          first_candidate_def candidate_parts_def grounded_def extract_sources_def
          enumerate_simps)
  with research_all_question_order [of scripted_platform last_first "[''who'', ''why'']" ?w]
  have "map question ?rs = [''who'', ''why'']"
    by blast
  with run have second: "\<exists>results. fst (research_all scripted_platform last_first [''who'', ''why''] ?w)
        = Some (Inr results)
      \<and> map question results = [''who'', ''why'']
      \<and> map findings results = [''tea is a drink'', ''first'']"
    by (intro exI [of _ ?rs]) simp
  from first second show ?thesis by blast
qed

section \<open>Properties of the command-line driver\<close>

lemma trim_blank: "(trim s = []) = (\<forall>c\<in>set s. isWhiteSpace c)"
proof -
  have "(trim s = []) = (\<forall>c\<in>set (dropWhile isWhiteSpace s). isWhiteSpace c)"
    by (simp add: trim_def)
  also have "\<dots> = (dropWhile isWhiteSpace s = [])"
  proof
    assume all: "\<forall>c\<in>set (dropWhile isWhiteSpace s). isWhiteSpace c"
    show "dropWhile isWhiteSpace s = []"
    proof (rule ccontr)
      assume ne: "dropWhile isWhiteSpace s \<noteq> []"
      then have "\<not> isWhiteSpace (hd (dropWhile isWhiteSpace s))" by (rule hd_dropWhile)
      moreover from ne have "hd (dropWhile isWhiteSpace s) \<in> set (dropWhile isWhiteSpace s)"
        by simp
      ultimately show False using all by blast
    qed
  next
    assume "dropWhile isWhiteSpace s = []"
    then show "\<forall>c\<in>set (dropWhile isWhiteSpace s). isWhiteSpace c"
      by (simp only: list.set(1) ball_empty)
  qed
  also have "\<dots> = (\<forall>c\<in>set s. isWhiteSpace c)"
    by (rule dropWhile_eq_Nil_conv)
  finally show ?thesis .
qed

text \<open>
  C4. When the topic (the value of the \<open>--topic\<close> flag, or the line typed at the prompt
  when the flag is absent or empty) is empty or consists of white space only, the process
  exits with code 1 and the world is as it was: no client was initialized and no request
  was sent.
\<close>

theorem main_blank_topic:
  assumes "\<forall>c\<in>set (read_topic flag answer). isWhiteSpace c"
  shows "main lib finish outputFile flag answer w = \<lparr>exit_code = Some 1, caught = None, final = w\<rparr>
       \<and> exit_code (main lib finish outputFile flag answer w) \<noteq> Some 0
       \<and> network (final (main lib finish outputFile flag answer w)) = network w
       \<and> contentGenerator (final (main lib finish outputFile flag answer w)) = contentGenerator w"
  using assms by (simp add: main_def trim_blank)

theorem main_blank_topic_witness:
  "main scripted_platform in_turn ''output/output.md'' (Some [CHR 0x20, CHR 0x09]) ''tea''
     (scripted_world [Answer (say two_question_plan)])
     = \<lparr>exit_code = Some 1, caught = None,
        final = scripted_world [Answer (say two_question_plan)]\<rparr>
   \<and> main scripted_platform in_turn ''output/output.md'' None []
        (scripted_world [Answer (say two_question_plan)])
     = \<lparr>exit_code = Some 1, caught = None,
        final = scripted_world [Answer (say two_question_plan)]\<rparr>
   \<and> network (scripted_world [Answer (say two_question_plan)]) = []"
proof -
  have "\<forall>c\<in>set (read_topic (Some [CHR 0x20, CHR 0x09]) ''tea''). isWhiteSpace c"
    by (simp add: read_topic_def isWhiteSpace_def)
  moreover have "\<forall>c\<in>set (read_topic None []). isWhiteSpace c"
    by (simp add: read_topic_def)
  ultimately show ?thesis
    using main_blank_topic [of "Some [CHR 0x20, CHR 0x09]" "''tea''" scripted_platform in_turn
            "''output/output.md''" "scripted_world [Answer (say two_question_plan)]"]
      main_blank_topic [of None "[]" scripted_platform in_turn
            "''output/output.md''" "scripted_world [Answer (say two_question_plan)]"]
    by (simp add: scripted_world_def fresh_def)
qed

lemma pipeline_settles:
  "pipeline lib finish outputFile topic w = (r, w') \<Longrightarrow> r \<noteq> None"
  by (auto simp: pipeline_def split: prod.splits sum.splits option.splits
           dest: research_all_settled)

text \<open>
  C8 (as amended). When the topic is not blank (something is left of it after trimming
  white space), the process exits with code 0, whether the pipeline completed or the
  \<open>catch\<close> clause printed an error; when the topic is blank (empty or white space
  only), it exits with code 1, and nothing was caught.
\<close>

theorem main_exit_code:
  "(trim (read_topic flag answer) \<noteq> [] \<longrightarrow>
      exit_code (main lib finish outputFile flag answer w) = Some 0)
   \<and> (trim (read_topic flag answer) = [] \<longrightarrow>
      exit_code (main lib finish outputFile flag answer w) = Some 1
      \<and> caught (main lib finish outputFile flag answer w) = None)
   \<and> (\<forall>e. caught (main lib finish outputFile flag answer w) = Some e \<longrightarrow>
      exit_code (main lib finish outputFile flag answer w) = Some 0)"
proof -
  obtain r w' where p: "pipeline lib finish outputFile (read_topic flag answer) w = (r, w')"
    by (cases "pipeline lib finish outputFile (read_topic flag answer) w")
  from pipeline_settles [OF p] obtain o' where r: "r = Some o'" by auto
  show ?thesis
    using p r by (cases o') (simp_all add: main_def Let_def)
qed

text \<open>Unfolding a run of the stages on the scripted model service.\<close>

lemmas stage_run =
  runCoordinator_def runResearcher_def runWriter_def generateContent_def streamContent_def
  research_all_def completion_order_def pipeline_def main_def read_topic_def trim_def
  isWhiteSpace_def Let_def read_response_def say_def first_candidate_def candidate_parts_def
  grounded_def extract_sources_def parse_examples_def two_question_plan_def
  no_question_plan_def in_turn_def last_first_def enumerate_simps

theorem main_exit_code_witness:
  "exit_code (main scripted_platform in_turn ''output/output.md'' (Some ''tea'') []
       (scripted_world [Answer (say two_question_plan), Answer (say ''first''),
                        Answer grounded, Chunks [say ''# Tea'', say '' report'']])) = Some 0
   \<and> caught (main scripted_platform in_turn ''output/output.md'' (Some ''tea'') []
       (scripted_world [Answer (say two_question_plan), Answer (say ''first''),
                        Answer grounded, Chunks [say ''# Tea'', say '' report'']])) = None
   \<and> files (outside (final (main scripted_platform in_turn ''output/output.md'' (Some ''tea'') []
       (scripted_world [Answer (say two_question_plan), Answer (say ''first''),
                        Answer grounded, Chunks [say ''# Tea'', say '' report'']]))))
       = [(''output/output.md'', ''# Tea report'')]
   \<and> exit_code (main scripted_platform in_turn ''output/output.md'' None ''tea''
       (scripted_world [Answer (say two_question_plan), Answer (say ''first''),
                        Failure serverError])) = Some 0
   \<and> caught (main scripted_platform in_turn ''output/output.md'' None ''tea''
       (scripted_world [Answer (say two_question_plan), Answer (say ''first''),
                        Failure serverError])) = Some serverError
   \<and> exit_code (main scripted_platform in_turn ''output/output.md'' None []
       (scripted_world [])) = Some 1"
proof -
  let ?good = "scripted_world [Answer (say two_question_plan), Answer (say ''first''),
                        Answer grounded, Chunks [say ''# Tea'', say '' report'']]"
  let ?bad = "scripted_world [Answer (say two_question_plan), Answer (say ''first''),
                        Failure serverError]"
  have t: "trim (read_topic (Some ''tea'') []) \<noteq> []" "trim (read_topic None ''tea'') \<noteq> []"
    "trim (read_topic None []) = []"
    by (simp_all add: read_topic_def trim_def isWhiteSpace_def)
  have c1: "caught (main scripted_platform in_turn ''output/output.md'' (Some ''tea'') [] ?good)
      = None"
    by (simp add: stage_run scripted_run)
  have f1: "files (outside (final (main scripted_platform in_turn ''output/output.md''
       (Some ''tea'') [] ?good))) = [(''output/output.md'', ''# Tea report'')]"
    by (simp add: stage_run scripted_run)
  have c2: "caught (main scripted_platform in_turn ''output/output.md'' None ''tea'' ?bad)
      = Some serverError"
    by (simp add: stage_run scripted_run serverError_def)
  show ?thesis
    using t c1 f1 c2
      main_exit_code [of "Some ''tea''" "[]" scripted_platform in_turn "''output/output.md''" ?good]
      main_exit_code [of None "''tea''" scripted_platform in_turn "''output/output.md''" ?bad]
      main_exit_code [of None "[]" scripted_platform in_turn "''output/output.md''"
         "scripted_world []"]
    by simp
qed

text \<open>
  C8 as stated fails: a topic of one space is not empty, and the process exits with
  code 1.
\<close>

theorem main_whitespace_topic_counterexample:
  "read_topic (Some [CHR 0x20]) [] \<noteq> []
   \<and> exit_code (main scripted_platform in_turn ''output/output.md'' (Some [CHR 0x20]) []
        (scripted_world [Answer (say two_question_plan)])) = Some 1"
  by (simp add: main_def read_topic_def trim_def isWhiteSpace_def)

end
